theory Spec2Isabelle
  imports Complex_Main
begin

section \<open>Exceptions\<close>

text \<open>
  A Python exception is identified by its class and its argument. Every \<^verbatim>\<open>raise\<close> of the
  source, and every exception that an external call lets through, is a value \<open>Inl e\<close> of a
  result type \<open>exn + 'a\<close>.
\<close>

datatype exn = Exn (exn_class: string) (exn_arg: string)

section \<open>The session API of pdhttp\<close>

text \<open>
  \<^verbatim>\<open>pdhttp\<close> is an external package: \<^verbatim>\<open>session.py\<close> only calls
  \<^verbatim>\<open>SessionApi.open_session_with_http_info\<close> and \<^verbatim>\<open>SessionApi.delete_session\<close>. Both are
  parameters of the model. Each takes the host the client is configured with, its own
  argument and the state \<open>'w\<close> of the remote controller, and gives back what the call
  returns or raises together with the controller's next state. Of the triple
  \<^verbatim>\<open>(data, status, headers)\<close> that the open call returns, the source reads the headers only.
\<close>

datatype mode = READ_WRITE | READ_ONLY

type_synonym headers = "string \<rightharpoonup> string"

record 'w session_api =
  open_session_with_http_info :: "string \<Rightarrow> mode \<Rightarrow> 'w \<Rightarrow> (exn + headers) \<times> 'w"
  delete_session :: "string \<Rightarrow> string \<Rightarrow> 'w \<Rightarrow> (exn + unit) \<times> 'w"

text \<open>A request that reached the network: the host it went to and its argument.\<close>

datatype request = OpenRequest string mode | DeleteRequest string string

section \<open>session.py: class Session\<close>

text \<open>
  The state that the methods of a \<^verbatim>\<open>Session\<close> object read and write:
  \<open>host\<close> is \<^verbatim>\<open>self._api.api_client.configuration.host\<close>, \<open>token\<close> is \<^verbatim>\<open>self._token\<close>
  (the property \<^verbatim>\<open>token\<close> returns it as it is), \<open>controller\<close> is the state of the remote
  side and \<open>requests\<close> lists the requests sent so far, oldest first.
\<close>

record 'w state =
  host :: string
  token :: "string option"
  controller :: 'w
  requests :: "request list"

definition location :: "'w state \<Rightarrow> string" where
  "location st = host st"

definition location_setter :: "string \<Rightarrow> 'w state \<Rightarrow> (exn + unit) \<times> 'w state" where
  "location_setter new_location st = (Inr (), st\<lparr>host := new_location\<rparr>)"

text \<open>\<^verbatim>\<open>__init__\<close>: a fresh API client bound to \<open>loc\<close>, no token, then the setter once more.\<close>

definition Session :: "string \<Rightarrow> 'w \<Rightarrow> 'w state" where
  "Session loc w =
     snd (location_setter loc \<lparr>host = loc, token = None, controller = w, requests = []\<rparr>)"

definition open_session :: "'w session_api \<Rightarrow> mode \<Rightarrow> 'w state \<Rightarrow> (exn + unit) \<times> 'w state" where
  "open_session api m st =
     (case open_session_with_http_info api (host st) m (controller st) of
        (r, w) \<Rightarrow>
          (let st1 = st\<lparr>controller := w, requests := requests st @ [OpenRequest (host st) m]\<rparr>
           in case r of
                Inl e \<Rightarrow> (Inl e, st1)
              | Inr hdrs \<Rightarrow>
                  (case hdrs ''Authentication-Info'' of
                     None \<Rightarrow> (Inl (Exn ''KeyError'' ''Authentication-Info''), st1)
                   | Some t \<Rightarrow> (Inr (), st1\<lparr>token := Some t\<rparr>))))"

definition close_session :: "'w session_api \<Rightarrow> 'w state \<Rightarrow> (exn + unit) \<times> 'w state" where
  "close_session api st =
     (case token st of
        None \<Rightarrow> (Inr (), st)
      | Some t \<Rightarrow>
          (case delete_session api (host st) t (controller st) of
             (r, w) \<Rightarrow>
               (let st1 = st\<lparr>controller := w,
                               requests := requests st @ [DeleteRequest (host st) t]\<rparr>
                in case r of
                     Inl e \<Rightarrow> (Inl e, st1)
                   | Inr u \<Rightarrow> (Inr (), st1\<lparr>token := None\<rparr>))))"

text \<open>\<^verbatim>\<open>__enter__\<close> and \<^verbatim>\<open>__exit__\<close>; \<open>exc_value\<close> is the error the scope body raised, if any.\<close>

definition enter :: "'w session_api \<Rightarrow> 'w state \<Rightarrow> (exn + unit) \<times> 'w state" where
  "enter api st = open_session api READ_WRITE st"

definition exit :: "'w session_api \<Rightarrow> exn option \<Rightarrow> 'w state \<Rightarrow> (exn + unit) \<times> 'w state" where
  "exit api exc_value st =
     (case close_session api st of
        (Inl e, st1) \<Rightarrow> (Inl e, st1)
      | (Inr u, st1) \<Rightarrow>
          (case exc_value of
             Some e \<Rightarrow> (Inl e, st1)
           | None \<Rightarrow> (Inr (), st1)))"

text \<open>
  The statement \<^verbatim>\<open>with session: body\<close>. Python calls \<^verbatim>\<open>__enter__\<close>; when that raises,
  neither the body nor \<^verbatim>\<open>__exit__\<close> runs. Otherwise the body runs and \<^verbatim>\<open>__exit__\<close> is
  called with the body's error or with \<^verbatim>\<open>None\<close>. An error of \<^verbatim>\<open>__exit__\<close> replaces the
  body's outcome; when \<^verbatim>\<open>__exit__\<close> returns (it returns \<^verbatim>\<open>None\<close>), the body's outcome stands.
\<close>

definition with_session ::
  "'w session_api \<Rightarrow> ('w state \<Rightarrow> (exn + 'a) \<times> 'w state) \<Rightarrow> 'w state \<Rightarrow> (exn + 'a) \<times> 'w state" where
  "with_session api body st =
     (case enter api st of
        (Inl e, st1) \<Rightarrow> (Inl e, st1)
      | (Inr u, st1) \<Rightarrow>
          (case body st1 of
             (r, st2) \<Rightarrow>
               (case exit api (case r of Inl e \<Rightarrow> Some e | Inr v \<Rightarrow> None) st2 of
                  (Inl e', st3) \<Rightarrow> (Inl e', st3)
                | (Inr u', st3) \<Rightarrow> (r, st3))))"

text \<open>
  The statement \<^verbatim>\<open>with session.ro_context(): body\<close>. The generator opens inside its
  \<^verbatim>\<open>try\<close>, so the \<^verbatim>\<open>finally\<close> clause runs \<^verbatim>\<open>close_session\<close> on every path: after a failed
  open, after the body returned and after the body raised (the \<^verbatim>\<open>except\<close> clause re-raises).
  An error raised in the \<^verbatim>\<open>finally\<close> clause replaces the one in flight.
\<close>

definition ro_context ::
  "'w session_api \<Rightarrow> ('w state \<Rightarrow> (exn + 'a) \<times> 'w state) \<Rightarrow> 'w state \<Rightarrow> (exn + 'a) \<times> 'w state" where
  "ro_context api body st =
     (case open_session api READ_ONLY st of
        (Inl e, st1) \<Rightarrow>
          (case close_session api st1 of
             (Inl e', st2) \<Rightarrow> (Inl e', st2)
           | (Inr u, st2) \<Rightarrow> (Inl e, st2))
      | (Inr u, st1) \<Rightarrow>
          (case body st1 of
             (r, st2) \<Rightarrow>
               (case close_session api st2 of
                  (Inl e', st3) \<Rightarrow> (Inl e', st3)
                | (Inr u', st3) \<Rightarrow> (r, st3))))"

subsection \<open>Two controllers to run the model on\<close>

text \<open>
  A controller that counts the sessions it has granted and names each token after the
  count. \<open>granting_api True\<close> honours every close request; \<open>granting_api False\<close> answers
  every close request with an error, as an unreachable or failing controller does.
\<close>

definition granting_api :: "bool \<Rightarrow> nat session_api" where
  "granting_api close_ok =
     \<lparr>open_session_with_http_info =
        (\<lambda>h m n. (Inr [''Authentication-Info'' \<mapsto> replicate (Suc n) CHR ''t''], Suc n)),
      delete_session =
        (\<lambda>h t n. (if close_ok then Inr () else Inl (Exn ''ApiException'' ''500''), n))\<rparr>"

text \<open>A controller that refuses every open request.\<close>

definition refusing_api :: "nat session_api" where
  "refusing_api =
     \<lparr>open_session_with_http_info = (\<lambda>h m n. (Inl (Exn ''ApiException'' ''403''), n)),
      delete_session = (\<lambda>h t n. (Inr (), n))\<rparr>"

section \<open>utils.py: the payload builders\<close>

text \<open>
  The builders call the constructors of pdhttp's value classes, which belong to the external
  package. Each constructor is a parameter: it receives its positional arguments and returns
  the object or raises. \<^verbatim>\<open>Point(*point)\<close> unpacks the iterable into positional arguments,
  so the constructor receives the list of components, whatever its length. In
  \<^verbatim>\<open>Position(Point(*point), Rotation(*rotation), actions)\<close> the point is built first, then
  the rotation, then the position; the first error ends the call.
\<close>

definition position ::
  "('a list \<Rightarrow> exn + 'pt) \<Rightarrow> ('a list \<Rightarrow> exn + 'rot) \<Rightarrow>
   ('pt \<Rightarrow> 'rot \<Rightarrow> 'act list option \<Rightarrow> exn + 'pos) \<Rightarrow>
   'a list \<Rightarrow> 'a list \<Rightarrow> 'act list option \<Rightarrow> exn + 'pos" where
  "position mk_Point mk_Rotation mk_Position point rotation actions =
     (case mk_Point point of
        Inl e \<Rightarrow> Inl e
      | Inr p \<Rightarrow>
          (case mk_Rotation rotation of
             Inl e \<Rightarrow> Inl e
           | Inr r \<Rightarrow> mk_Position p r actions))"

text \<open>\<^verbatim>\<open>pose\<close> returns \<^verbatim>\<open>Pose(angles)\<close>: its \<^verbatim>\<open>actions\<close> argument is not passed on.\<close>

definition pose :: "('a list \<Rightarrow> exn + 'pose) \<Rightarrow> 'a list \<Rightarrow> 'act list option \<Rightarrow> exn + 'pose" where
  "pose mk_Pose angles actions = mk_Pose angles"

text \<open>
  The six keyword arguments of \<^verbatim>\<open>jog\<close> default to 0: an argument is \<open>Some v\<close> when the
  caller passes \<open>v\<close> and \<open>None\<close> when the caller leaves it out.
\<close>

definition arg_or_0 :: "'a::zero option \<Rightarrow> 'a" where
  "arg_or_0 a = (case a of None \<Rightarrow> 0 | Some v \<Rightarrow> v)"

definition jog ::
  "('a \<Rightarrow> 'a \<Rightarrow> 'a \<Rightarrow> 'a \<Rightarrow> 'a \<Rightarrow> 'a \<Rightarrow> exn + 'jaa) \<Rightarrow> ('jaa \<Rightarrow> exn + 'ja) \<Rightarrow>
   'a::zero option \<Rightarrow> 'a option \<Rightarrow> 'a option \<Rightarrow> 'a option \<Rightarrow> 'a option \<Rightarrow> 'a option \<Rightarrow>
   exn + 'ja" where
  "jog mk_JoggingAccelerationAcceleration mk_JoggingAcceleration x y z rx ry rz =
     (case mk_JoggingAccelerationAcceleration
             (arg_or_0 x) (arg_or_0 y) (arg_or_0 z) (arg_or_0 rx) (arg_or_0 ry) (arg_or_0 rz) of
        Inl e \<Rightarrow> Inl e
      | Inr a \<Rightarrow> mk_JoggingAcceleration a)"

text \<open>\<open>raises c r\<close>: the call whose outcome is \<open>r\<close> raised an exception of class \<open>c\<close>.\<close>

definition raises :: "string \<Rightarrow> exn + 'a \<Rightarrow> bool" where
  "raises c r = (case r of Inl e \<Rightarrow> exn_class e = c | Inr v \<Rightarrow> False)"

subsection \<open>The value classes of pdhttp\<close>

text \<open>
  Modelled from the spec: the value classes \<^verbatim>\<open>Point\<close>, \<^verbatim>\<open>Rotation\<close>, \<^verbatim>\<open>Position\<close>,
  \<^verbatim>\<open>Pose\<close>, \<^verbatim>\<open>JoggingAccelerationAcceleration\<close> and \<^verbatim>\<open>JoggingAcceleration\<close> of the
  external package pdhttp, whose source is not part of the repository. The spec describes
  them as pure value objects: a position of a Cartesian point, a rotation and an optional
  ordered list of actions, point and rotation of three components each, a pose of an ordered
  tuple of joint angles, and a jog vector of six bounded floats.

  The constructors follow Python's call rule for the generated classes of the package, whose
  parameters all default to \<^verbatim>\<open>None\<close> and whose setters run in the order of the fields.
  \<^verbatim>\<open>Point\<close> and \<^verbatim>\<open>Rotation\<close> take three positional arguments: with more than three
  the call itself is a \<^verbatim>\<open>TypeError\<close>; with fewer, the first field left out is \<^verbatim>\<open>None\<close>
  and its setter raises \<^verbatim>\<open>ValueError\<close>. \<^verbatim>\<open>Pose\<close> stores the sequence it is given,
  whatever its length. The jog vector is bounded: the setter of the first component outside
  the closed interval from -1 to 1 raises \<^verbatim>\<open>ValueError\<close>. The argument of a
  \<^verbatim>\<open>ValueError\<close> names the field.
\<close>

datatype 'a Point = Point (point_x: 'a) (point_y: 'a) (point_z: 'a)

datatype 'a Rotation = Rotation (rotation_roll: 'a) (rotation_pitch: 'a) (rotation_yaw: 'a)

datatype ('a, 'act) Position =
  Position (position_point: "'a Point") (position_rotation: "'a Rotation")
    (position_actions: "'act list option")

datatype ('a, 'act) Pose = Pose (pose_angles: "'a list") (pose_actions: "'act list option")

datatype 'a JoggingAccelerationAcceleration =
  JoggingAccelerationAcceleration (acc_x: 'a) (acc_y: 'a) (acc_z: 'a)
    (acc_rx: 'a) (acc_ry: 'a) (acc_rz: 'a)

datatype 'a JoggingAcceleration =
  JoggingAcceleration (acceleration: "'a JoggingAccelerationAcceleration")

fun Point_init :: "'a list \<Rightarrow> exn + 'a Point" where
  "Point_init [] = Inl (Exn ''ValueError'' ''x'')"
| "Point_init [a] = Inl (Exn ''ValueError'' ''y'')"
| "Point_init [a, b] = Inl (Exn ''ValueError'' ''z'')"
| "Point_init [a, b, c] = Inr (Point a b c)"
| "Point_init (a # b # c # d # args) = Inl (Exn ''TypeError'' ''Point.__init__'')"

fun Rotation_init :: "'a list \<Rightarrow> exn + 'a Rotation" where
  "Rotation_init [] = Inl (Exn ''ValueError'' ''roll'')"
| "Rotation_init [a] = Inl (Exn ''ValueError'' ''pitch'')"
| "Rotation_init [a, b] = Inl (Exn ''ValueError'' ''yaw'')"
| "Rotation_init [a, b, c] = Inr (Rotation a b c)"
| "Rotation_init (a # b # c # d # args) = Inl (Exn ''TypeError'' ''Rotation.__init__'')"

definition Position_init ::
  "'a Point \<Rightarrow> 'a Rotation \<Rightarrow> 'act list option \<Rightarrow> exn + ('a, 'act) Position" where
  "Position_init p r actions = Inr (Position p r actions)"

definition Pose_init :: "'a list \<Rightarrow> exn + ('a, 'act) Pose" where
  "Pose_init angles = Inr (Pose angles None)"

definition in_bounds :: "real \<Rightarrow> bool" where
  "in_bounds v = (- 1 \<le> v \<and> v \<le> 1)"

definition JoggingAccelerationAcceleration_init ::
  "real \<Rightarrow> real \<Rightarrow> real \<Rightarrow> real \<Rightarrow> real \<Rightarrow> real \<Rightarrow> exn + real JoggingAccelerationAcceleration" where
  "JoggingAccelerationAcceleration_init x y z rx ry rz =
     (if \<not> in_bounds x then Inl (Exn ''ValueError'' ''x'')
      else if \<not> in_bounds y then Inl (Exn ''ValueError'' ''y'')
      else if \<not> in_bounds z then Inl (Exn ''ValueError'' ''z'')
      else if \<not> in_bounds rx then Inl (Exn ''ValueError'' ''rx'')
      else if \<not> in_bounds ry then Inl (Exn ''ValueError'' ''ry'')
      else if \<not> in_bounds rz then Inl (Exn ''ValueError'' ''rz'')
      else Inr (JoggingAccelerationAcceleration x y z rx ry rz))"

definition JoggingAcceleration_init ::
  "'a JoggingAccelerationAcceleration \<Rightarrow> exn + 'a JoggingAcceleration" where
  "JoggingAcceleration_init a = Inr (JoggingAcceleration a)"

section \<open>Properties of the session\<close>

text \<open>
  Claim C8. Closing a session that holds no token does nothing: no request is sent, nothing
  is raised and the state (token, host, controller, request log) is the one before the call.
  In particular a second \<open>close_session\<close> right after one that returned is such a call.
\<close>

theorem close_session_idempotent:
  "(token st = None \<longrightarrow> close_session api st = (Inr (), st)) \<and>
   (close_session api st = (Inr (), st') \<longrightarrow>
      token st' = None \<and> close_session api st' = (Inr (), st'))"
  by (auto simp: close_session_def Let_def split: option.splits prod.splits sum.splits)

theorem close_session_idempotent_witness:
  "token (Session ''10.0.0.1'' (0::nat)) = None \<and>
   close_session (granting_api True) (Session ''10.0.0.1'' 0) = (Inr (), Session ''10.0.0.1'' 0) \<and>
   close_session (granting_api True)
     \<lparr>host = ''10.0.0.1'', token = Some ''t'', controller = Suc 0, requests = []\<rparr>
   = (Inr (), \<lparr>host = ''10.0.0.1'', token = None, controller = Suc 0,
               requests = [DeleteRequest ''10.0.0.1'' ''t'']\<rparr>) \<and>
   close_session (granting_api True)
     \<lparr>host = ''10.0.0.1'', token = None, controller = Suc 0,
      requests = [DeleteRequest ''10.0.0.1'' ''t'']\<rparr>
   = (Inr (), \<lparr>host = ''10.0.0.1'', token = None, controller = Suc 0,
               requests = [DeleteRequest ''10.0.0.1'' ''t'']\<rparr>)"
proof -
  let ?s0 = "Session ''10.0.0.1'' (0::nat)"
  let ?s1 = "\<lparr>host = ''10.0.0.1'', token = Some ''t'', controller = Suc 0, requests = []\<rparr>"
  let ?s2 = "\<lparr>host = ''10.0.0.1'', token = None, controller = Suc 0,
              requests = [DeleteRequest ''10.0.0.1'' ''t'']\<rparr>"
  have t0: "token ?s0 = None"
    by (simp add: Session_def location_setter_def)
  have c1: "close_session (granting_api True) ?s1 = (Inr (), ?s2)"
    by (simp add: close_session_def granting_api_def)
  from close_session_idempotent [of ?s0 "granting_api True" ?s2] t0
  have a: "close_session (granting_api True) ?s0 = (Inr (), ?s0)"
    by blast
  from close_session_idempotent [of ?s1 "granting_api True" ?s2] c1
  have b: "close_session (granting_api True) ?s2 = (Inr (), ?s2)"
    by blast
  from t0 a c1 b show ?thesis by simp
qed

text \<open>
  Claim C1, as the code has it. Closing a session that holds token \<open>t\<close> sends exactly one
  request, a delete request for \<open>t\<close> to the current host. When the request succeeds,
  \<open>close_session\<close> returns and the token is \<open>None\<close>. When the request fails, its error
  is raised and the token is still \<open>t\<close>: the assignment after the call is not reached.
\<close>

theorem close_session_when_open:
  "token st = Some t \<Longrightarrow> delete_session api (host st) t (controller st) = (r, w) \<Longrightarrow>
   requests (snd (close_session api st)) = requests st @ [DeleteRequest (host st) t] \<and>
   controller (snd (close_session api st)) = w \<and>
   host (snd (close_session api st)) = host st \<and>
   (case r of
      Inr u \<Rightarrow> fst (close_session api st) = Inr () \<and> token (snd (close_session api st)) = None
    | Inl e \<Rightarrow> fst (close_session api st) = Inl e \<and> token (snd (close_session api st)) = Some t)"
  by (simp add: close_session_def Let_def split: sum.splits)

theorem close_session_when_open_witness:
  "close_session (granting_api True)
     \<lparr>host = ''10.0.0.1'', token = Some ''t'', controller = Suc 0, requests = []\<rparr>
   = (Inr (), \<lparr>host = ''10.0.0.1'', token = None, controller = Suc 0,
               requests = [DeleteRequest ''10.0.0.1'' ''t'']\<rparr>)"
proof -
  let ?s1 = "\<lparr>host = ''10.0.0.1'', token = Some ''t'', controller = Suc 0, requests = []\<rparr>"
  have d: "delete_session (granting_api True) (host ?s1) ''t'' (controller ?s1) = (Inr (), Suc 0)"
    by (simp add: granting_api_def)
  have t: "token ?s1 = Some ''t''" by simp
  from close_session_when_open [OF t d]
  show ?thesis
    by (cases "close_session (granting_api True) ?s1") (auto intro: state.equality)
qed

text \<open>
  Against C1 as stated (token \<open>None\<close> even when the remote close fails): a controller that
  answers the delete request with an error leaves the token in place.
\<close>

theorem close_session_failure_keeps_token:
  "close_session (granting_api False)
     \<lparr>host = ''10.0.0.1'', token = Some ''t'', controller = Suc 0, requests = []\<rparr>
   = (Inl (Exn ''ApiException'' ''500''),
      \<lparr>host = ''10.0.0.1'', token = Some ''t'', controller = Suc 0,
       requests = [DeleteRequest ''10.0.0.1'' ''t'']\<rparr>)"
  by (simp add: close_session_def granting_api_def)

text \<open>
  Claim C2, as the code has it. In a scope \<^verbatim>\<open>with session:\<close> whose \<^verbatim>\<open>__enter__\<close>
  succeeded and whose body raised \<open>e\<close>, if the \<open>close_session\<close> of \<^verbatim>\<open>__exit__\<close> returns
  (the delete request succeeded, or the body left no token), then the token is \<open>None\<close>
  after the scope and the error raised to the caller is \<open>e\<close>.
\<close>

theorem with_session_body_error:
  "enter api st = (Inr (), sa) \<Longrightarrow> body sa = (Inl e, sb) \<Longrightarrow>
   close_session api sb = (Inr (), sc) \<Longrightarrow>
   with_session api body st = (Inl e, sc) \<and> token sc = None"
  by (auto simp: with_session_def exit_def close_session_def Let_def
           split: option.splits sum.splits prod.splits)

theorem with_session_body_error_witness:
  "with_session (granting_api True) (\<lambda>s. (Inl (Exn ''ValueError'' ''unreachable pose''), s))
     (Session ''10.0.0.1'' 0)
   = (Inl (Exn ''ValueError'' ''unreachable pose'') :: exn + unit,
      \<lparr>host = ''10.0.0.1'', token = None, controller = Suc 0,
       requests = [OpenRequest ''10.0.0.1'' READ_WRITE, DeleteRequest ''10.0.0.1'' ''t'']\<rparr>)"
proof -
  let ?s0 = "Session ''10.0.0.1'' (0::nat)"
  let ?s1 = "\<lparr>host = ''10.0.0.1'', token = Some ''t'', controller = Suc 0,
              requests = [OpenRequest ''10.0.0.1'' READ_WRITE]\<rparr>"
  let ?s3 = "\<lparr>host = ''10.0.0.1'', token = None, controller = Suc 0,
              requests = [OpenRequest ''10.0.0.1'' READ_WRITE, DeleteRequest ''10.0.0.1'' ''t'']\<rparr>"
  let ?body = "\<lambda>s::nat state. (Inl (Exn ''ValueError'' ''unreachable pose'') :: exn + unit, s)"
  have a: "enter (granting_api True) ?s0 = (Inr (), ?s1)"
    by (simp add: enter_def open_session_def granting_api_def Session_def location_setter_def)
  have b: "?body ?s1 = (Inl (Exn ''ValueError'' ''unreachable pose''), ?s1)"
    by simp
  have c: "close_session (granting_api True) ?s1 = (Inr (), ?s3)"
    by (simp add: close_session_def granting_api_def)
  from a b c with_session_body_error [where api = "granting_api True" and st = ?s0 and sa = ?s1
      and body = ?body and e = "Exn ''ValueError'' ''unreachable pose''" and sb = ?s1 and sc = ?s3]
  show ?thesis by simp
qed

text \<open>
  Against C2 as stated (for every body error the token is \<open>None\<close> and the same error is
  re-raised): when the delete request of \<^verbatim>\<open>__exit__\<close> fails, the caller sees the error of
  the request, not the body's, and the token is still held.
\<close>

theorem with_session_close_failure_masks_body_error:
  "with_session (granting_api False) (\<lambda>s. (Inl (Exn ''ValueError'' ''unreachable pose''), s))
     (Session ''10.0.0.1'' 0)
   = (Inl (Exn ''ApiException'' ''500'') :: exn + unit,
      \<lparr>host = ''10.0.0.1'', token = Some ''t'', controller = Suc 0,
       requests = [OpenRequest ''10.0.0.1'' READ_WRITE, DeleteRequest ''10.0.0.1'' ''t'']\<rparr>)"
  by (simp add: with_session_def enter_def exit_def open_session_def close_session_def
        granting_api_def Session_def location_setter_def)

text \<open>
  Claim C3, as the code has it. A newly constructed session has token \<open>None\<close>.
  \<open>open_session\<close> returns exactly when the controller accepts and the response carries the
  \<^verbatim>\<open>Authentication-Info\<close> header, and then the token is not \<open>None\<close>; when it raises, the
  token is the one held before (\<open>None\<close> for a closed session) and the error is surfaced.
  When \<open>close_session\<close> returns, the token is \<open>None\<close>; when it raises, a token was held
  and is still held.
\<close>

theorem token_transitions:
  "token (Session loc w0) = None \<and>
   (fst (open_session api m st) = Inr () \<longleftrightarrow>
      (\<exists>hdrs w t. open_session_with_http_info api (host st) m (controller st) = (Inr hdrs, w) \<and>
                  hdrs ''Authentication-Info'' = Some t)) \<and>
   (fst (open_session api m st) = Inr () \<longrightarrow> token (snd (open_session api m st)) \<noteq> None) \<and>
   (fst (open_session api m st) = Inl e \<longrightarrow> token (snd (open_session api m st)) = token st) \<and>
   (fst (close_session api st) = Inr () \<longrightarrow> token (snd (close_session api st)) = None) \<and>
   (fst (close_session api st) = Inl e \<longrightarrow>
      token st \<noteq> None \<and> token (snd (close_session api st)) = token st)"
  by (auto simp: Session_def location_setter_def open_session_def close_session_def Let_def
           split: prod.splits sum.splits option.splits)

theorem token_transitions_witness:
  "token (Session ''10.0.0.1'' (0::nat)) = None \<and>
   open_session (granting_api True) READ_WRITE (Session ''10.0.0.1'' 0)
     = (Inr (), \<lparr>host = ''10.0.0.1'', token = Some ''t'', controller = Suc 0,
                  requests = [OpenRequest ''10.0.0.1'' READ_WRITE]\<rparr>) \<and>
   open_session refusing_api READ_WRITE (Session ''10.0.0.1'' 0)
     = (Inl (Exn ''ApiException'' ''403''),
        \<lparr>host = ''10.0.0.1'', token = None, controller = 0,
         requests = [OpenRequest ''10.0.0.1'' READ_WRITE]\<rparr>) \<and>
   token (snd (open_session (granting_api True) READ_WRITE (Session ''10.0.0.1'' 0))) \<noteq> None \<and>
   token (snd (open_session refusing_api READ_WRITE (Session ''10.0.0.1'' 0))) = None \<and>
   token (snd (close_session (granting_api True)
     \<lparr>host = ''10.0.0.1'', token = Some ''t'', controller = Suc 0, requests = []\<rparr>)) = None \<and>
   token (snd (close_session (granting_api False)
     \<lparr>host = ''10.0.0.1'', token = Some ''t'', controller = Suc 0, requests = []\<rparr>)) = Some ''t''"
proof -
  let ?s0 = "Session ''10.0.0.1'' (0::nat)"
  let ?s1 = "\<lparr>host = ''10.0.0.1'', token = Some ''t'', controller = Suc 0, requests = []\<rparr>"
  have o1: "open_session (granting_api True) READ_WRITE ?s0
     = (Inr (), \<lparr>host = ''10.0.0.1'', token = Some ''t'', controller = Suc 0,
                  requests = [OpenRequest ''10.0.0.1'' READ_WRITE]\<rparr>)"
    by (simp add: open_session_def granting_api_def Session_def location_setter_def)
  have o2: "open_session refusing_api READ_WRITE ?s0
     = (Inl (Exn ''ApiException'' ''403''),
        \<lparr>host = ''10.0.0.1'', token = None, controller = 0,
         requests = [OpenRequest ''10.0.0.1'' READ_WRITE]\<rparr>)"
    by (simp add: open_session_def refusing_api_def Session_def location_setter_def)
  have c1: "fst (close_session (granting_api True) ?s1) = Inr ()"
    by (simp add: close_session_def granting_api_def)
  have c2: "fst (close_session (granting_api False) ?s1) = Inl (Exn ''ApiException'' ''500'')"
    by (simp add: close_session_def granting_api_def)
  have i: "token ?s0 = None"
    using token_transitions [of "''10.0.0.1''" "0::nat" "granting_api True" READ_WRITE ?s0
        "Exn ''ApiException'' ''403''"]
    by blast
  have a: "token (snd (open_session (granting_api True) READ_WRITE ?s0)) \<noteq> None"
    using token_transitions [of "''10.0.0.1''" "0::nat" "granting_api True" READ_WRITE ?s0
        "Exn ''ApiException'' ''403''"] o1
    by simp
  have b: "token (snd (open_session refusing_api READ_WRITE ?s0)) = None"
    using token_transitions [of "''10.0.0.1''" "0::nat" refusing_api READ_WRITE ?s0
        "Exn ''ApiException'' ''403''"] o2 i
    by simp
  have c: "token (snd (close_session (granting_api True) ?s1)) = None"
    using token_transitions [of "''10.0.0.1''" "0::nat" "granting_api True" READ_WRITE ?s1
        "Exn ''ApiException'' ''500''"] c1
    by blast
  have d: "token (snd (close_session (granting_api False) ?s1)) = Some ''t''"
    using token_transitions [of "''10.0.0.1''" "0::nat" "granting_api False" READ_WRITE ?s1
        "Exn ''ApiException'' ''500''"] c2
    by simp
  from i o1 o2 a b c d show ?thesis by blast
qed

text \<open>
  Against C3 as stated (\<open>close_session\<close> leaves the token \<open>None\<close>): a session opened on a
  controller that fails the close request still holds its token after \<open>close_session\<close>.
\<close>

theorem failed_close_leaves_session_open:
  "token (snd (close_session (granting_api False)
      (snd (open_session (granting_api False) READ_WRITE (Session ''10.0.0.1'' 0))))) = Some ''t'' \<and>
   fst (close_session (granting_api False)
      (snd (open_session (granting_api False) READ_WRITE (Session ''10.0.0.1'' 0))))
     = Inl (Exn ''ApiException'' ''500'')"
  by (simp add: open_session_def close_session_def granting_api_def Session_def location_setter_def)

text \<open>
  Claim C5, as the code has it. When the body of a scope (\<^verbatim>\<open>with session:\<close> or
  \<^verbatim>\<open>with session.ro_context():\<close>) has raised \<open>e\<close> and the \<open>close_session\<close> at exit raises
  \<open>e'\<close>, the error raised to the caller is \<open>e'\<close>, the close failure: it replaces the body's
  error. The token held at exit is still held afterwards.
\<close>

theorem scope_exit_close_failure_wins:
  "body sa = (Inl e, sb) \<Longrightarrow> close_session api sb = (Inl e', sc) \<Longrightarrow>
   (enter api st = (Inr (), sa) \<longrightarrow> with_session api body st = (Inl e', sc)) \<and>
   (open_session api READ_ONLY st = (Inr (), sa) \<longrightarrow> ro_context api body st = (Inl e', sc)) \<and>
   token sb \<noteq> None \<and> token sc = token sb"
  by (auto simp: with_session_def ro_context_def exit_def close_session_def Let_def
           split: option.splits sum.splits prod.splits)

theorem scope_exit_close_failure_wins_witness:
  "with_session (granting_api False) (\<lambda>s. (Inl (Exn ''KeyError'' ''speed''), s))
     (Session ''10.0.0.7'' 0)
   = (Inl (Exn ''ApiException'' ''500'') :: exn + unit,
      \<lparr>host = ''10.0.0.7'', token = Some ''t'', controller = Suc 0,
       requests = [OpenRequest ''10.0.0.7'' READ_WRITE, DeleteRequest ''10.0.0.7'' ''t'']\<rparr>) \<and>
   ro_context (granting_api False) (\<lambda>s. (Inl (Exn ''KeyError'' ''speed''), s))
     (Session ''10.0.0.7'' 0)
   = (Inl (Exn ''ApiException'' ''500'') :: exn + unit,
      \<lparr>host = ''10.0.0.7'', token = Some ''t'', controller = Suc 0,
       requests = [OpenRequest ''10.0.0.7'' READ_ONLY, DeleteRequest ''10.0.0.7'' ''t'']\<rparr>)"
proof -
  let ?api = "granting_api False"
  let ?s0 = "Session ''10.0.0.7'' (0::nat)"
  let ?body = "\<lambda>s::nat state. (Inl (Exn ''KeyError'' ''speed'') :: exn + unit, s)"
  let ?rw = "\<lparr>host = ''10.0.0.7'', token = Some ''t'', controller = Suc 0,
              requests = [OpenRequest ''10.0.0.7'' READ_WRITE]\<rparr>"
  let ?ro = "\<lparr>host = ''10.0.0.7'', token = Some ''t'', controller = Suc 0,
              requests = [OpenRequest ''10.0.0.7'' READ_ONLY]\<rparr>"
  let ?rw' = "\<lparr>host = ''10.0.0.7'', token = Some ''t'', controller = Suc 0,
       requests = [OpenRequest ''10.0.0.7'' READ_WRITE, DeleteRequest ''10.0.0.7'' ''t'']\<rparr>"
  let ?ro' = "\<lparr>host = ''10.0.0.7'', token = Some ''t'', controller = Suc 0,
       requests = [OpenRequest ''10.0.0.7'' READ_ONLY, DeleteRequest ''10.0.0.7'' ''t'']\<rparr>"
  have e1: "enter ?api ?s0 = (Inr (), ?rw)"
    by (simp add: enter_def open_session_def granting_api_def Session_def location_setter_def)
  have e2: "open_session ?api READ_ONLY ?s0 = (Inr (), ?ro)"
    by (simp add: open_session_def granting_api_def Session_def location_setter_def)
  have c1: "close_session ?api ?rw = (Inl (Exn ''ApiException'' ''500''), ?rw')"
    by (simp add: close_session_def granting_api_def)
  have c2: "close_session ?api ?ro = (Inl (Exn ''ApiException'' ''500''), ?ro')"
    by (simp add: close_session_def granting_api_def)
  have "with_session ?api ?body ?s0 = (Inl (Exn ''ApiException'' ''500''), ?rw')"
    using e1 c1 scope_exit_close_failure_wins [where body = ?body and sa = ?rw and sb = ?rw
        and e = "Exn ''KeyError'' ''speed''" and api = ?api and e' = "Exn ''ApiException'' ''500''"
        and sc = ?rw' and st = ?s0]
    by simp
  moreover have "ro_context ?api ?body ?s0 = (Inl (Exn ''ApiException'' ''500''), ?ro')"
    using e2 c2 scope_exit_close_failure_wins [where body = ?body and sa = ?ro and sb = ?ro
        and e = "Exn ''KeyError'' ''speed''" and api = ?api and e' = "Exn ''ApiException'' ''500''"
        and sc = ?ro' and st = ?s0]
    by simp
  ultimately show ?thesis by simp
qed

text \<open>
  Against C5 as stated (the body's error takes precedence over a close failure): in both
  scopes the caller receives the error of the failed close request.
\<close>

theorem close_failure_replaces_body_error:
  "fst (with_session (granting_api False)
          (\<lambda>s. (Inl (Exn ''RuntimeError'' ''collision'') :: exn + unit, s)) (Session ''10.0.0.9'' 0))
     = Inl (Exn ''ApiException'' ''500'') \<and>
   fst (ro_context (granting_api False)
          (\<lambda>s. (Inl (Exn ''RuntimeError'' ''collision'') :: exn + unit, s)) (Session ''10.0.0.9'' 0))
     = Inl (Exn ''ApiException'' ''500'')"
  by (simp add: with_session_def ro_context_def enter_def exit_def open_session_def
        close_session_def granting_api_def Session_def location_setter_def)

text \<open>
  Claim C9, as the code has it. The setter of \<^verbatim>\<open>location\<close> has no guard: in every state,
  open or closed, it returns without an error and rebinds the host, the getter then returns
  the new location, the token is untouched, and the next open request goes to the new
  location.
\<close>

theorem location_setter_unguarded:
  "location_setter new_location st = (Inr (), st\<lparr>host := new_location\<rparr>) \<and>
   location (snd (location_setter new_location st)) = new_location \<and>
   token (snd (location_setter new_location st)) = token st \<and>
   requests (snd (open_session api m (snd (location_setter new_location st))))
     = requests st @ [OpenRequest new_location m]"
  by (simp add: location_setter_def location_def open_session_def Let_def
           split: prod.splits sum.splits option.splits)

text \<open>
  Against C9 as stated (setting the location of an open session is rejected with an error):
  on a session that holds a token the setter returns normally and the host is rebound.
\<close>

theorem location_setter_applied_while_open:
  "location_setter ''10.0.0.2''
     \<lparr>host = ''10.0.0.1'', token = Some ''t'', controller = Suc 0,
      requests = [OpenRequest ''10.0.0.1'' READ_WRITE]\<rparr>
   = (Inr (), \<lparr>host = ''10.0.0.2'', token = Some ''t'', controller = Suc 0,
                requests = [OpenRequest ''10.0.0.1'' READ_WRITE]\<rparr>)"
  by (simp add: location_setter_def)

text \<open>
  Claim C10. \<open>open_session\<close> never reads the token: whether or not one is held, it returns
  or raises as the same call on a session without a token does, and it sends exactly one
  request, the open request (no delete request for a token held). On a session that holds
  a token, when the controller accepts, it returns and the new token replaces the old one.
\<close>

theorem open_session_while_open:
  "fst (open_session api m st) = fst (open_session api m (st\<lparr>token := None\<rparr>)) \<and>
   requests (snd (open_session api m st)) = requests st @ [OpenRequest (host st) m] \<and>
   (token st = Some t0 \<and>
    open_session_with_http_info api (host st) m (controller st) = (Inr hdrs, w) \<and>
    hdrs ''Authentication-Info'' = Some t1 \<longrightarrow>
      open_session api m st =
        (Inr (), st\<lparr>controller := w, requests := requests st @ [OpenRequest (host st) m],
                    token := Some t1\<rparr>))"
  by (simp add: open_session_def Let_def split: prod.splits sum.splits option.splits)

theorem open_session_while_open_witness:
  "open_session (granting_api True) READ_ONLY
     \<lparr>host = ''10.0.0.1'', token = Some ''t'', controller = Suc 0,
      requests = [OpenRequest ''10.0.0.1'' READ_WRITE]\<rparr>
   = (Inr (), \<lparr>host = ''10.0.0.1'', token = Some ''tt'', controller = Suc (Suc 0),
       requests = [OpenRequest ''10.0.0.1'' READ_WRITE, OpenRequest ''10.0.0.1'' READ_ONLY]\<rparr>)"
proof -
  let ?s1 = "\<lparr>host = ''10.0.0.1'', token = Some ''t'', controller = Suc 0,
              requests = [OpenRequest ''10.0.0.1'' READ_WRITE]\<rparr>"
  have a: "token ?s1 = Some ''t''" by simp
  have b: "open_session_with_http_info (granting_api True) (host ?s1) READ_ONLY (controller ?s1)
             = (Inr [''Authentication-Info'' \<mapsto> ''tt''], Suc (Suc 0))"
    by (simp add: granting_api_def)
  have c: "[''Authentication-Info'' \<mapsto> ''tt''] ''Authentication-Info'' = Some ''tt''"
    by simp
  from a b c open_session_while_open [where st = ?s1 and api = "granting_api True"
      and m = READ_ONLY and ?t0.0 = "''t''" and hdrs = "[''Authentication-Info'' \<mapsto> ''tt'']"
      and w = "Suc (Suc 0)" and ?t1.0 = "''tt''"]
  have "open_session (granting_api True) READ_ONLY ?s1 =
        (Inr (), ?s1\<lparr>controller := Suc (Suc 0),
                      requests := requests ?s1 @ [OpenRequest (host ?s1) READ_ONLY],
                      token := Some ''tt''\<rparr>)"
    by blast
  then show ?thesis by simp
qed

section \<open>Properties of the payload builders\<close>

text \<open>
  Claim C7, as the code has it. \<open>position\<close> checks no length itself: it builds the point,
  then the rotation, then the position, and returns or raises exactly what these
  constructors do. With the value classes of pdhttp, a point and a rotation of exactly three
  components each give a position whose point and rotation equal the inputs component by
  component and whose actions are the ones given. A point or rotation of fewer than three
  components raises \<^verbatim>\<open>ValueError\<close> and one of more than three raises \<^verbatim>\<open>TypeError\<close>,
  the point being built first; neither is a \<^verbatim>\<open>ShapeError\<close>.
\<close>

theorem position_forwards_components:
  "position mk_Point mk_Rotation mk_Position point rotation actions =
     (case mk_Point point of
        Inl e \<Rightarrow> Inl e
      | Inr p \<Rightarrow>
          (case mk_Rotation rotation of
             Inl e \<Rightarrow> Inl e
           | Inr r \<Rightarrow> mk_Position p r actions)) \<and>
   (length point = 3 \<and> length rotation = 3 \<longrightarrow>
      (\<exists>pos. position Point_init Rotation_init Position_init point rotation actions = Inr pos \<and>
         [point_x (position_point pos), point_y (position_point pos),
          point_z (position_point pos)] = point \<and>
         [rotation_roll (position_rotation pos), rotation_pitch (position_rotation pos),
          rotation_yaw (position_rotation pos)] = rotation \<and>
         position_actions pos = actions)) \<and>
   (length point < 3 \<or> length point = 3 \<and> length rotation < 3 \<longrightarrow>
      raises ''ValueError''
        (position Point_init Rotation_init Position_init point rotation actions)) \<and>
   (3 < length point \<or> length point = 3 \<and> 3 < length rotation \<longrightarrow>
      raises ''TypeError''
        (position Point_init Rotation_init Position_init point rotation actions))"
proof (intro conjI impI)
  show "position mk_Point mk_Rotation mk_Position point rotation actions =
     (case mk_Point point of
        Inl e \<Rightarrow> Inl e
      | Inr p \<Rightarrow>
          (case mk_Rotation rotation of
             Inl e \<Rightarrow> Inl e
           | Inr r \<Rightarrow> mk_Position p r actions))"
    by (simp add: position_def)
next
  assume "length point = 3 \<and> length rotation = 3"
  then obtain a b c u v w where "point = [a, b, c]" and "rotation = [u, v, w]"
    by (auto simp: length_Suc_conv numeral_3_eq_3)
  then show "\<exists>pos. position Point_init Rotation_init Position_init point rotation actions = Inr pos \<and>
         [point_x (position_point pos), point_y (position_point pos),
          point_z (position_point pos)] = point \<and>
         [rotation_roll (position_rotation pos), rotation_pitch (position_rotation pos),
          rotation_yaw (position_rotation pos)] = rotation \<and>
         position_actions pos = actions"
    by (simp add: position_def Position_init_def)
next
  assume short: "length point < 3 \<or> length point = 3 \<and> length rotation < 3"
  show "raises ''ValueError''
          (position Point_init Rotation_init Position_init point rotation actions)"
  proof (cases point rule: Point_init.cases)
    case (4 a b c)
    with short have "length rotation < 3" by simp
    with 4 show ?thesis
      by (cases rotation rule: Rotation_init.cases) (simp_all add: position_def raises_def)
  qed (use short in \<open>simp_all add: position_def raises_def\<close>)
next
  assume long: "3 < length point \<or> length point = 3 \<and> 3 < length rotation"
  show "raises ''TypeError''
          (position Point_init Rotation_init Position_init point rotation actions)"
  proof (cases point rule: Point_init.cases)
    case (4 a b c)
    with long have "3 < length rotation" by simp
    with 4 show ?thesis
      by (cases rotation rule: Rotation_init.cases) (simp_all add: position_def raises_def)
  qed (use long in \<open>simp_all add: position_def raises_def\<close>)
qed

theorem position_forwards_components_witness:
  "position Point_init Rotation_init Position_init
     [0.3, 0.2, 0.1 :: real] [3.1415, 0, 0] (None :: string list option)
   = Inr (Position (Point 0.3 0.2 0.1) (Rotation 3.1415 0 0) None) \<and>
   raises ''ValueError''
     (position Point_init Rotation_init Position_init
        [0.3, 0.2 :: real] [3.1415, 0, 0] (None :: string list option)) \<and>
   raises ''TypeError''
     (position Point_init Rotation_init Position_init
        [0.3, 0.2, 0.1 :: real] [3.1415, 0, 0, 0] (None :: string list option))"
proof -
  let ?pt = "[0.3, 0.2, 0.1 :: real]" and ?rot = "[3.1415, 0, 0 :: real]"
  let ?short = "[0.3, 0.2 :: real]" and ?long = "[3.1415, 0, 0, 0 :: real]"
  let ?none = "None :: string list option"
  have l: "length ?pt = 3 \<and> length ?rot = 3" by simp
  have s: "length ?short < 3 \<or> length ?short = 3 \<and> length ?rot < 3" by simp
  have g: "3 < length ?pt \<or> length ?pt = 3 \<and> 3 < length ?long" by simp
  from s position_forwards_components
         [where point = ?short and rotation = ?rot and actions = ?none
            and mk_Point = Point_init and mk_Rotation = Rotation_init
            and mk_Position = Position_init]
  have a: "raises ''ValueError''
     (position Point_init Rotation_init Position_init ?short ?rot ?none)"
    by blast
  from g position_forwards_components
         [where point = ?pt and rotation = ?long and actions = ?none
            and mk_Point = Point_init and mk_Rotation = Rotation_init
            and mk_Position = Position_init]
  have b: "raises ''TypeError''
     (position Point_init Rotation_init Position_init ?pt ?long ?none)"
    by blast
  from l position_forwards_components
         [where point = ?pt and rotation = ?rot and actions = ?none
            and mk_Point = Point_init and mk_Rotation = Rotation_init
            and mk_Position = Position_init]
  obtain pos where
    1: "position Point_init Rotation_init Position_init ?pt ?rot ?none = Inr pos" and
    2: "[point_x (position_point pos), point_y (position_point pos),
          point_z (position_point pos)] = ?pt" and
    3: "[rotation_roll (position_rotation pos), rotation_pitch (position_rotation pos),
          rotation_yaw (position_rotation pos)] = ?rot" and
    4: "position_actions pos = ?none"
    by blast
  from 2 3 4 have "pos = Position (Point 0.3 0.2 0.1) (Rotation 3.1415 0 0) None"
    by (cases pos; cases "position_point pos"; cases "position_rotation pos") simp
  with 1 a b show ?thesis by blast
qed

text \<open>
  Against C7 as stated (\<^verbatim>\<open>ShapeError\<close> when the point has not exactly three components):
  a point of four components fails in the constructor of \<^verbatim>\<open>Point\<close>, with Python's
  \<^verbatim>\<open>TypeError\<close> for a call with too many positional arguments.
\<close>

theorem position_wrong_length_no_ShapeError:
  "position Point_init Rotation_init Position_init
     [0.3, 0.2, 0.1, 0.4 :: real] [3.1415, 0, 0] (None :: string list option)
   = Inl (Exn ''TypeError'' ''Point.__init__'') \<and>
   \<not> raises ''ShapeError''
       (position Point_init Rotation_init Position_init
          [0.3, 0.2, 0.1, 0.4 :: real] [3.1415, 0, 0] (None :: string list option))"
  by (simp add: position_def raises_def)

text \<open>
  Claim C6, as the code has it. \<open>pose\<close> checks no length: it hands the angles, whatever
  their number, to the constructor of \<^verbatim>\<open>Pose\<close> and returns or raises what the constructor
  does, so it raises \<^verbatim>\<open>ShapeError\<close> exactly when the constructor does. With a value class
  that stores its argument it raises nothing for any length, and the angle at every index of
  the result is the input's angle at that index.
\<close>

theorem pose_forwards_angles:
  "pose mk_Pose angles actions = mk_Pose angles \<and>
   (raises ''ShapeError'' (pose mk_Pose angles actions) \<longleftrightarrow> raises ''ShapeError'' (mk_Pose angles)) \<and>
   pose Pose_init angles actions = Inr (Pose angles None) \<and>
   (\<forall>p. pose Pose_init angles actions = Inr p \<longrightarrow>
      (\<forall>i < length angles. pose_angles p ! i = angles ! i))"
  by (auto simp: pose_def Pose_init_def)

theorem pose_forwards_angles_witness:
  "pose Pose_init [10, 20, 30, 40, 50, 60 :: real] (None :: string list option)
     = Inr (Pose [10, 20, 30, 40, 50, 60] (None :: string list option)) \<and>
   pose_angles (Pose [10, 20, 30, 40, 50, 60 :: real] (None :: string list option)) ! 0 = 10 \<and>
   pose_angles (Pose [10, 20, 30, 40, 50, 60 :: real] (None :: string list option)) ! 5 = 60"
proof -
  let ?a = "[10, 20, 30, 40, 50, 60 :: real]"
  let ?p = "Pose ?a (None :: string list option)"
  note t = pose_forwards_angles [where mk_Pose = "Pose_init :: real list \<Rightarrow> exn + (real, string) Pose"
      and angles = ?a and actions = "None :: string list option"]
  from t have 1: "pose Pose_init ?a (None :: string list option) = Inr ?p"
    by blast
  from t 1 have 2: "\<forall>i < length ?a. pose_angles ?p ! i = ?a ! i"
    by blast
  from 2 have "pose_angles ?p ! 0 = ?a ! 0" and "pose_angles ?p ! 5 = ?a ! 5"
    by simp_all
  with 1 show ?thesis by simp
qed

text \<open>
  Against C6 as stated (\<^verbatim>\<open>ShapeError\<close> whenever the length is not 6): three angles are
  accepted and stored.
\<close>

theorem pose_short_list_no_ShapeError:
  "pose Pose_init [10, 20, 30 :: real] (None :: string list option)
     = Inr (Pose [10, 20, 30] (None :: string list option)) \<and>
   \<not> raises ''ShapeError''
       (pose Pose_init [10, 20, 30 :: real] (None :: string list option)
          :: exn + (real, string) Pose)"
  by (simp add: pose_def Pose_init_def raises_def)

text \<open>
  Claim C4, as the code has it. \<open>jog\<close> checks no range itself: it passes the six
  components, 0 for one left out, to the constructors and returns or raises exactly what
  they do. With the bounded vector class of pdhttp, a call with a component outside the
  closed interval from -1 to 1 raises \<^verbatim>\<open>ValueError\<close> (no \<^verbatim>\<open>RangeError\<close> exists), a call
  with all components inside returns the vector of the components as given, the boundaries
  1 and -1 included, and \<open>jog\<close> with no argument returns the zero vector.
\<close>

theorem jog_forwards_components:
  "jog mk_A mk_J x y z rx ry rz =
     (case mk_A (arg_or_0 x) (arg_or_0 y) (arg_or_0 z) (arg_or_0 rx) (arg_or_0 ry) (arg_or_0 rz) of
        Inl e \<Rightarrow> Inl e
      | Inr a \<Rightarrow> mk_J a) \<and>
   ((\<exists>v \<in> set [arg_or_0 vx, arg_or_0 vy, arg_or_0 vz, arg_or_0 vrx, arg_or_0 vry, arg_or_0 vrz].
       v < - 1 \<or> 1 < v) \<longrightarrow>
      raises ''ValueError''
        (jog JoggingAccelerationAcceleration_init JoggingAcceleration_init vx vy vz vrx vry vrz)) \<and>
   ((\<forall>v \<in> set [arg_or_0 vx, arg_or_0 vy, arg_or_0 vz, arg_or_0 vrx, arg_or_0 vry, arg_or_0 vrz].
       - 1 \<le> v \<and> v \<le> 1) \<longrightarrow>
      jog JoggingAccelerationAcceleration_init JoggingAcceleration_init vx vy vz vrx vry vrz
        = Inr (JoggingAcceleration (JoggingAccelerationAcceleration
                 (arg_or_0 vx) (arg_or_0 vy) (arg_or_0 vz)
                 (arg_or_0 vrx) (arg_or_0 vry) (arg_or_0 vrz)))) \<and>
   jog JoggingAccelerationAcceleration_init JoggingAcceleration_init
       (Some 1) None None None None None
     = Inr (JoggingAcceleration (JoggingAccelerationAcceleration 1 0 0 0 0 0)) \<and>
   jog JoggingAccelerationAcceleration_init JoggingAcceleration_init
       (Some (- 1)) None None None None None
     = Inr (JoggingAcceleration (JoggingAccelerationAcceleration (- 1) 0 0 0 0 0)) \<and>
   jog JoggingAccelerationAcceleration_init JoggingAcceleration_init
       None None None None None None
     = Inr (JoggingAcceleration (JoggingAccelerationAcceleration 0 0 0 0 0 0))"
proof (intro conjI impI)
  show "jog mk_A mk_J x y z rx ry rz =
     (case mk_A (arg_or_0 x) (arg_or_0 y) (arg_or_0 z) (arg_or_0 rx) (arg_or_0 ry) (arg_or_0 rz) of
        Inl e \<Rightarrow> Inl e
      | Inr a \<Rightarrow> mk_J a)"
    by (simp add: jog_def)
next
  assume "\<exists>v \<in> set [arg_or_0 vx, arg_or_0 vy, arg_or_0 vz, arg_or_0 vrx, arg_or_0 vry, arg_or_0 vrz].
       v < - 1 \<or> 1 < v"
  then have "\<not> in_bounds (arg_or_0 vx) \<or> \<not> in_bounds (arg_or_0 vy) \<or> \<not> in_bounds (arg_or_0 vz) \<or>
      \<not> in_bounds (arg_or_0 vrx) \<or> \<not> in_bounds (arg_or_0 vry) \<or> \<not> in_bounds (arg_or_0 vrz)"
    by (auto simp: in_bounds_def)
  then show "raises ''ValueError''
        (jog JoggingAccelerationAcceleration_init JoggingAcceleration_init vx vy vz vrx vry vrz)"
    by (auto simp: jog_def JoggingAccelerationAcceleration_init_def raises_def)
next
  assume "\<forall>v \<in> set [arg_or_0 vx, arg_or_0 vy, arg_or_0 vz, arg_or_0 vrx, arg_or_0 vry, arg_or_0 vrz].
       - 1 \<le> v \<and> v \<le> 1"
  then have "in_bounds (arg_or_0 vx)" "in_bounds (arg_or_0 vy)" "in_bounds (arg_or_0 vz)"
      "in_bounds (arg_or_0 vrx)" "in_bounds (arg_or_0 vry)" "in_bounds (arg_or_0 vrz)"
    by (simp_all add: in_bounds_def)
  then show "jog JoggingAccelerationAcceleration_init JoggingAcceleration_init vx vy vz vrx vry vrz
        = Inr (JoggingAcceleration (JoggingAccelerationAcceleration
                 (arg_or_0 vx) (arg_or_0 vy) (arg_or_0 vz)
                 (arg_or_0 vrx) (arg_or_0 vry) (arg_or_0 vrz)))"
    by (simp add: jog_def JoggingAccelerationAcceleration_init_def JoggingAcceleration_init_def)
qed (simp_all add: jog_def arg_or_0_def in_bounds_def JoggingAccelerationAcceleration_init_def
       JoggingAcceleration_init_def)

theorem jog_forwards_components_witness:
  "raises ''ValueError''
     (jog JoggingAccelerationAcceleration_init JoggingAcceleration_init
        (Some 1.5) None None None None None) \<and>
   jog JoggingAccelerationAcceleration_init JoggingAcceleration_init
       (Some 0.5) None None (Some (- 1)) None None
     = Inr (JoggingAcceleration (JoggingAccelerationAcceleration 0.5 0 0 (- 1) 0 0)) \<and>
   jog JoggingAccelerationAcceleration_init JoggingAcceleration_init
       (Some 1) None None None None None
     = Inr (JoggingAcceleration (JoggingAccelerationAcceleration 1 0 0 0 0 0)) \<and>
   jog JoggingAccelerationAcceleration_init JoggingAcceleration_init
       None None None None None None
     = Inr (JoggingAcceleration (JoggingAccelerationAcceleration 0 0 0 0 0 0))"
proof -
  let ?J = "jog JoggingAccelerationAcceleration_init JoggingAcceleration_init"
  have out: "\<exists>v \<in> set [arg_or_0 (Some (1.5 :: real)), arg_or_0 None, arg_or_0 None,
                         arg_or_0 None, arg_or_0 None, arg_or_0 None]. v < - 1 \<or> 1 < v"
    by (simp add: arg_or_0_def)
  have inside: "\<forall>v \<in> set [arg_or_0 (Some (0.5 :: real)), arg_or_0 None, arg_or_0 None,
                         arg_or_0 (Some (- 1)), arg_or_0 None, arg_or_0 None]. - 1 \<le> v \<and> v \<le> 1"
    by (simp add: arg_or_0_def)
  note t1 = jog_forwards_components [where vx = "Some 1.5" and vy = None and vz = None
      and vrx = None and vry = None and vrz = None
      and mk_A = JoggingAccelerationAcceleration_init
      and mk_J = "JoggingAcceleration_init :: real JoggingAccelerationAcceleration \<Rightarrow> _"
      and x = None and y = None and z = None and rx = None and ry = None and rz = None]
  note t2 = jog_forwards_components [where vx = "Some 0.5" and vy = None and vz = None
      and vrx = "Some (- 1)" and vry = None and vrz = None
      and mk_A = JoggingAccelerationAcceleration_init
      and mk_J = "JoggingAcceleration_init :: real JoggingAccelerationAcceleration \<Rightarrow> _"
      and x = None and y = None and z = None and rx = None and ry = None and rz = None]
  from t1 out have a: "raises ''ValueError'' (?J (Some 1.5) None None None None None)"
    by blast
  from t2 inside have "?J (Some 0.5) None None (Some (- 1)) None None
      = Inr (JoggingAcceleration (JoggingAccelerationAcceleration
               (arg_or_0 (Some 0.5)) (arg_or_0 None) (arg_or_0 None)
               (arg_or_0 (Some (- 1))) (arg_or_0 None) (arg_or_0 None)))"
    by blast
  then have b: "?J (Some 0.5) None None (Some (- 1)) None None
      = Inr (JoggingAcceleration (JoggingAccelerationAcceleration 0.5 0 0 (- 1) 0 0))"
    by (simp add: arg_or_0_def)
  from t1 have c: "?J (Some 1) None None None None None
      = Inr (JoggingAcceleration (JoggingAccelerationAcceleration 1 0 0 0 0 0))"
    by blast
  from t1 have d: "?J None None None None None None
      = Inr (JoggingAcceleration (JoggingAccelerationAcceleration 0 0 0 0 0 0))"
    by blast
  from a b c d show ?thesis by blast
qed

text \<open>
  Against C4 as stated (a component outside the closed interval from -1 to 1 raises
  \<^verbatim>\<open>RangeError\<close>): for the component 1.5 the error is the \<^verbatim>\<open>ValueError\<close> of the
  constructor, not a \<^verbatim>\<open>RangeError\<close>.
\<close>

theorem jog_out_of_range_ValueError:
  "jog JoggingAccelerationAcceleration_init JoggingAcceleration_init
       (Some 1.5) None None None None None
     = Inl (Exn ''ValueError'' ''x'') \<and>
   \<not> raises ''RangeError''
       (jog JoggingAccelerationAcceleration_init JoggingAcceleration_init
          (Some 1.5) None None None None None)"
  by (simp add: jog_def arg_or_0_def in_bounds_def raises_def
        JoggingAccelerationAcceleration_init_def)

end
